theory Spec2Isabelle
  imports Main "HOL-Library.Word"
begin

unbundle bit_operations_syntax

section \<open>uC/OS-III thread local storage, IAR implementation\<close>

text \<open>
  A shallow embedding of \<^verbatim>\<open>TLS/IAR/os_tls.c\<close>. Every C function of the file becomes a HOL
  function of the same name that takes the global variables it reads as a state record
  and returns the updated record.

  \<^item> \<^verbatim>\<open>CPU_DATA\<close> (and with it \<^verbatim>\<open>OS_TLS_ID\<close>) is an unsigned machine word whose
    width is fixed by the CPU port; it is the type parameter \<open>'w\<close>. \<^verbatim>\<open>OS_TLS\<close> is
    \<^verbatim>\<open>void *\<close> and is cast to \<^verbatim>\<open>uintptr_t\<close>; pointer-sized words are the type
    parameter \<open>'p\<close>. \<^verbatim>\<open>OS_OPT\<close> is \<^verbatim>\<open>CPU_INT16U\<close>.
  \<^item> \<^verbatim>\<open>OS_TCB *\<close> and \<^verbatim>\<open>OS_TLS_LOCK *\<close> are \<open>nat option\<close>: \<open>None\<close> is the null
    pointer, \<open>Some t\<close> is the address of task control block \<open>t\<close>, \<open>Some i\<close> is
    \<^verbatim>\<open>&OS_TLS_LockPoolTbl[i]\<close>. A lock handle (\<^verbatim>\<open>void *\<close>, \<^verbatim>\<open>__iar_Rmtx\<close>) is such an
    \<^verbatim>\<open>OS_TLS_LOCK *\<close>; the variables of the runtime that hold handles are the store
    \<open>Rmtx\<close>, by address, and a \<^verbatim>\<open>void **\<close> is \<open>None\<close> or \<open>Some a\<close> for variable \<open>a\<close>.
  \<^item> \<^verbatim>\<open>*p_err\<close> is returned as a value; \<^verbatim>\<open>p_err\<close> itself is taken to be non-null
    (the null check exists only under \<^verbatim>\<open>OS_SAFETY_CRITICAL\<close>).
  \<^item> \<^verbatim>\<open>CPU_CRITICAL_ENTER()\<close> and \<^verbatim>\<open>CPU_CRITICAL_EXIT()\<close> disable and restore
    interrupts; in this sequential model they have no effect on the state.
  \<^item> Calls into the kernel's mutex services and into the IAR runtime are appended to
    the list \<open>Calls\<close> of the state; what such a call reports back (an error code, an
    allocated address) is an argument of the function that makes the call.
  \<^item> An array access outside its bounds or a dereferenced null pointer has no defined
    behaviour in C; a function that can perform one returns \<open>None\<close> there.
\<close>

subsection \<open>Types and configuration\<close>

text \<open>The error codes of the kernel's \<^verbatim>\<open>OS_ERR\<close> enumeration that this file sets or
  tests; \<open>OS_ERR_OTHER n\<close> stands for any other member, by its number.\<close>

datatype OS_ERR =
    OS_ERR_NONE
  | OS_ERR_OS_NOT_RUNNING
  | OS_ERR_TLS_ID_INVALID
  | OS_ERR_TLS_NO_MORE_AVAIL
  | OS_ERR_TLS_NOT_EN
  | OS_ERR_OTHER nat

text \<open>\<^verbatim>\<open>OSRunning\<close> is an \<^verbatim>\<open>OS_STATE\<close>; the kernel sets it to one of these two values,
  and the file only asks whether it is \<^verbatim>\<open>OS_STATE_OS_RUNNING\<close>.\<close>

datatype OS_STATE = OS_STATE_OS_STOPPED | OS_STATE_OS_RUNNING

type_synonym OS_OPT = "16 word"

definition OS_OPT_NONE :: OS_OPT where
  "OS_OPT_NONE = 0"

text \<open>The build-time configuration. \<^verbatim>\<open>OS_TLS_LOCK_MAX\<close> is \<^verbatim>\<open>_MAX_LOCK\<close>, plus
  \<^verbatim>\<open>FOPEN_MAX\<close> when file locks are configured; it is the dimension of
  \<^verbatim>\<open>OS_TLS_LockPoolTbl\<close> and therefore at least 1. The file is compiled only when
  \<^verbatim>\<open>OS_CFG_TLS_TBL_SIZE > 0u\<close>. The bit \<^verbatim>\<open>OS_OPT_TASK_NO_TLS\<close> is defined by the
  kernel's \<^verbatim>\<open>os.h\<close>.\<close>

record (overloaded) 'w os_cfg =
  OS_CFG_TLS_TBL_SIZE :: "'w word"
  OS_CFG_ARG_CHK_EN :: bool
  OS_TLS_LOCK_MAX :: nat
  OS_OPT_TASK_NO_TLS :: OS_OPT

text \<open>The two fields of \<^verbatim>\<open>OS_TCB\<close> that the file uses.\<close>

record (overloaded) 'p OS_TCB =
  Opt :: OS_OPT
  TLS_Tbl :: "'p word list"

text \<open>\<^verbatim>\<open>struct os_tls_lock\<close>. The \<^verbatim>\<open>OS_MUTEX\<close> member is opaque to this file: it is
  only handed to the kernel, and those calls are recorded in \<open>Calls\<close>. The array
  \<^verbatim>\<open>OS_TLS_LockPoolTbl\<close> is the part below \<^verbatim>\<open>OS_TLS_LOCK_MAX\<close> of a function on all
  indices: no function of the file checks that a handle points into the array, and a
  handle \<open>Some i\<close> with a larger \<open>i\<close> is memory beyond it.\<close>

record os_tls_lock =
  NextPtr :: "nat option"

datatype 'a ext_call =
    OSMutexCreate nat
  | OSMutexDel nat
  | OSMutexPend nat
  | OSMutexPost nat
  | iar_dlib_perthread_allocate
  | iar_dlib_perthread_initialize 'a
  | iar_dlib_perthread_destroy
  | iar_dlib_perthread_deallocate 'a

text \<open>The file's static variables, the kernel globals it reads, the task control
  blocks by address, the runtime's lock variables by address, and the trace of
  external calls.\<close>

record (overloaded) ('w, 'p) os_state =
  OS_TLS_NextAvailID :: "'w word"
  OS_TLS_LibID :: "'w word"
  OS_TLS_LockPoolTbl :: "nat \<Rightarrow> os_tls_lock"
  OS_TLS_LockPoolListPtr :: "nat option"
  OSRunning :: OS_STATE
  OSTCBCurPtr :: "nat option"
  OSTCBHighRdyPtr :: "nat option"
  TCBs :: "nat \<Rightarrow> 'p OS_TCB"
  Rmtx :: "nat \<Rightarrow> nat option"
  Calls :: "'p word ext_call list"

subsection \<open>The slot allocator\<close>

definition OS_TLS_GetID ::
  "'w::len os_cfg \<Rightarrow> ('w, 'p) os_state \<Rightarrow> ('w word \<times> OS_ERR) \<times> ('w, 'p) os_state" where
  "OS_TLS_GetID cfg s =
     (if OS_TLS_NextAvailID s \<ge> OS_CFG_TLS_TBL_SIZE cfg
      then ((OS_CFG_TLS_TBL_SIZE cfg, OS_ERR_TLS_NO_MORE_AVAIL), s)
      else ((OS_TLS_NextAvailID s, OS_ERR_NONE),
            s\<lparr>OS_TLS_NextAvailID := OS_TLS_NextAvailID s + 1\<rparr>))"

text \<open>\<open>get_ids cfg n s\<close> is \<open>n\<close> successive calls of \<^verbatim>\<open>OS_TLS_GetID\<close>: the results in
  call order and the final state.\<close>

fun get_ids ::
  "'w::len os_cfg \<Rightarrow> nat \<Rightarrow> ('w, 'p) os_state \<Rightarrow> ('w word \<times> OS_ERR) list \<times> ('w, 'p) os_state" where
  "get_ids cfg 0 s = ([], s)"
| "get_ids cfg (Suc n) s =
     (let (r, s') = OS_TLS_GetID cfg s;
          (rs, s'') = get_ids cfg n s'
      in (r # rs, s''))"

subsection \<open>The value store\<close>

text \<open>The parameter \<^verbatim>\<open>id\<close> of the C functions is written \<open>id'\<close>.\<close>

definition OS_TLS_GetValue ::
  "'w::len os_cfg \<Rightarrow> nat option \<Rightarrow> 'w word \<Rightarrow> ('w, 'p::len) os_state \<Rightarrow> ('p word \<times> OS_ERR) option" where
  "OS_TLS_GetValue cfg p_tcb id' s =
     (if OS_CFG_ARG_CHK_EN cfg \<and> id' \<ge> OS_TLS_NextAvailID s
      then Some (0, OS_ERR_TLS_ID_INVALID)
      else
        (case (case p_tcb of None \<Rightarrow> OSTCBCurPtr s | Some t \<Rightarrow> Some t) of
           None \<Rightarrow> Some (0, OS_ERR_OS_NOT_RUNNING)
         | Some t \<Rightarrow>
             if Opt (TCBs s t) AND OS_OPT_TASK_NO_TLS cfg = OS_OPT_NONE
             then (if unat id' < length (TLS_Tbl (TCBs s t))
                   then Some (TLS_Tbl (TCBs s t) ! unat id', OS_ERR_NONE)
                   else None)
             else Some (0, OS_ERR_TLS_NOT_EN)))"

text \<open>The destructor \<^verbatim>\<open>p_destruct\<close> is a function pointer, \<open>None\<close> when null.\<close>

definition OS_TLS_SetDestruct ::
  "'w word \<Rightarrow> nat option \<Rightarrow> ('w, 'p) os_state \<Rightarrow> OS_ERR \<times> ('w, 'p) os_state" where
  "OS_TLS_SetDestruct id' p_destruct s = (OS_ERR_NONE, s)"

definition OS_TLS_SetValue ::
  "'w::len os_cfg \<Rightarrow> nat option \<Rightarrow> 'w word \<Rightarrow> 'p::len word \<Rightarrow> ('w, 'p) os_state
     \<Rightarrow> (OS_ERR \<times> ('w, 'p) os_state) option" where
  "OS_TLS_SetValue cfg p_tcb id' val s =
     (if OS_CFG_ARG_CHK_EN cfg \<and> id' \<ge> OS_TLS_NextAvailID s
      then Some (OS_ERR_TLS_ID_INVALID, s)
      else
        (case (case p_tcb of None \<Rightarrow> OSTCBCurPtr s | Some t \<Rightarrow> Some t) of
           None \<Rightarrow> Some (OS_ERR_OS_NOT_RUNNING, s)
         | Some t \<Rightarrow>
             if Opt (TCBs s t) AND OS_OPT_TASK_NO_TLS cfg = OS_OPT_NONE
             then (if unat id' < length (TLS_Tbl (TCBs s t))
                   then Some (OS_ERR_NONE,
                     s\<lparr>TCBs := (TCBs s)
                        (t := (TCBs s t)\<lparr>TLS_Tbl := (TLS_Tbl (TCBs s t))[unat id' := val]\<rparr>)\<rparr>)
                   else None)
             else Some (OS_ERR_TLS_NOT_EN, s)))"

subsection \<open>Initialisation and the task hooks\<close>

text \<open>The \<^verbatim>\<open>for\<close> loop of \<^verbatim>\<open>OS_TLS_Init\<close>. The index \<^verbatim>\<open>ix\<close> is a \<^verbatim>\<open>CPU_INT16U\<close>, so
  \<^verbatim>\<open>ix++\<close> wraps at \<open>2 ^ 16\<close> and the loop need not end: the result is \<open>None\<close> when
  it does not. The bound \<^verbatim>\<open>OS_TLS_LOCK_MAX - 1u\<close> is written with the subtraction of
  \<open>nat\<close>, which agrees with C for the dimension of an array, at least 1.\<close>

partial_function (option) OS_TLS_Init_loop ::
  "nat \<Rightarrow> 16 word \<Rightarrow> (nat \<Rightarrow> os_tls_lock) \<Rightarrow> (nat \<Rightarrow> os_tls_lock) option" where
  "OS_TLS_Init_loop lock_max ix tbl =
     (if unat ix < lock_max - 1
      then OS_TLS_Init_loop lock_max (ix + 1)
             (tbl(unat ix := (tbl (unat ix))\<lparr>NextPtr := Some (unat ix + 1)\<rparr>))
      else Some tbl)"

definition OS_TLS_Init ::
  "'w::len os_cfg \<Rightarrow> ('w, 'p) os_state \<Rightarrow> (OS_ERR \<times> ('w, 'p) os_state) option" where
  "OS_TLS_Init cfg s =
     (let ((id', err), s1) = OS_TLS_GetID cfg (s\<lparr>OS_TLS_NextAvailID := 0\<rparr>);
          s2 = s1\<lparr>OS_TLS_LibID := id'\<rparr>
      in case OS_TLS_Init_loop (OS_TLS_LOCK_MAX cfg) 0 (OS_TLS_LockPoolTbl s2) of
           None \<Rightarrow> None
         | Some tbl \<Rightarrow>
             Some (err,
               s2\<lparr>OS_TLS_LockPoolTbl :=
                    tbl(OS_TLS_LOCK_MAX cfg - 1 :=
                          (tbl (OS_TLS_LOCK_MAX cfg - 1))\<lparr>NextPtr := None\<rparr>),
                  OS_TLS_LockPoolListPtr := Some 0\<rparr>))"

text \<open>The hooks take the task control block by its address. \<open>p_tls\<close> is what
  \<^verbatim>\<open>__iar_dlib_perthread_allocate()\<close> returns.\<close>

definition OS_TLS_TaskCreate ::
  "'w::len os_cfg \<Rightarrow> nat \<Rightarrow> 'p::len word \<Rightarrow> ('w, 'p) os_state \<Rightarrow> ('w, 'p) os_state option" where
  "OS_TLS_TaskCreate cfg p_tcb p_tls s =
     (if Opt (TCBs s p_tcb) AND OS_OPT_TASK_NO_TLS cfg = OS_OPT_NONE
      then (if unat (OS_TLS_LibID s) < length (TLS_Tbl (TCBs s p_tcb))
            then Some (s\<lparr>TCBs := (TCBs s)
                         (p_tcb := (TCBs s p_tcb)
                            \<lparr>TLS_Tbl := (TLS_Tbl (TCBs s p_tcb))[unat (OS_TLS_LibID s) := p_tls]\<rparr>),
                       Calls := Calls s @
                         [iar_dlib_perthread_allocate, iar_dlib_perthread_initialize p_tls]\<rparr>)
            else None)
      else Some s)"

definition OS_TLS_TaskDel ::
  "'w::len os_cfg \<Rightarrow> nat \<Rightarrow> ('w, 'p::len) os_state \<Rightarrow> ('w, 'p) os_state option" where
  "OS_TLS_TaskDel cfg p_tcb s =
     (if Opt (TCBs s p_tcb) AND OS_OPT_TASK_NO_TLS cfg = OS_OPT_NONE
      then (if unat (OS_TLS_LibID s) < length (TLS_Tbl (TCBs s p_tcb))
            then Some (s\<lparr>TCBs := (TCBs s)
                         (p_tcb := (TCBs s p_tcb)
                            \<lparr>TLS_Tbl := (TLS_Tbl (TCBs s p_tcb))[unat (OS_TLS_LibID s) := 0]\<rparr>),
                       Calls := Calls s @
                         [iar_dlib_perthread_destroy,
                          iar_dlib_perthread_deallocate
                            (TLS_Tbl (TCBs s p_tcb) ! unat (OS_TLS_LibID s))]\<rparr>)
            else None)
      else Some s)"

definition OS_TLS_TaskSw :: "('w, 'p) os_state \<Rightarrow> ('w, 'p) os_state option" where
  "OS_TLS_TaskSw s = (case OSTCBHighRdyPtr s of None \<Rightarrow> None | Some t \<Rightarrow> Some s)"

subsection \<open>The lock pool\<close>

text \<open>\<open>err\<close> is what \<^verbatim>\<open>OSMutexCreate\<close> stores in the local \<^verbatim>\<open>err\<close>.\<close>

definition OS_TLS_LockCreate ::
  "nat option \<Rightarrow> OS_ERR \<Rightarrow> ('w, 'p) os_state \<Rightarrow> ('w, 'p) os_state" where
  "OS_TLS_LockCreate p_lock err s =
     (case p_lock of
        None \<Rightarrow> s
      | Some a \<Rightarrow>
          (case OS_TLS_LockPoolListPtr s of
             None \<Rightarrow> s\<lparr>Rmtx := (Rmtx s)(a := None)\<rparr>
           | Some i \<Rightarrow>
               (let s1 = s\<lparr>OS_TLS_LockPoolListPtr := NextPtr (OS_TLS_LockPoolTbl s i),
                             Calls := Calls s @ [OSMutexCreate i]\<rparr>
                in if err \<noteq> OS_ERR_NONE
                   then s1\<lparr>OS_TLS_LockPoolTbl := (OS_TLS_LockPoolTbl s1)
                             (i := (OS_TLS_LockPoolTbl s1 i)
                                \<lparr>NextPtr := OS_TLS_LockPoolListPtr s1\<rparr>),
                           OS_TLS_LockPoolListPtr := Some i,
                           Rmtx := (Rmtx s1)(a := None)\<rparr>
                   else s1\<lparr>Rmtx := (Rmtx s1)(a := Some i)\<rparr>)))"

text \<open>\<open>err\<close> is what \<^verbatim>\<open>OSMutexDel\<close> stores in the local \<^verbatim>\<open>err\<close>; the function never
  reads it.\<close>

definition OS_TLS_LockDel ::
  "nat option \<Rightarrow> OS_ERR \<Rightarrow> ('w, 'p) os_state \<Rightarrow> ('w, 'p) os_state" where
  "OS_TLS_LockDel p_lock err s =
     (case p_lock of
        None \<Rightarrow> s
      | Some i \<Rightarrow>
          s\<lparr>OS_TLS_LockPoolTbl := (OS_TLS_LockPoolTbl s)
               (i := (OS_TLS_LockPoolTbl s i)\<lparr>NextPtr := OS_TLS_LockPoolListPtr s\<rparr>),
            OS_TLS_LockPoolListPtr := Some i,
            Calls := Calls s @ [OSMutexDel i]\<rparr>)"

definition OS_TLS_LockAcquire :: "nat option \<Rightarrow> ('w, 'p) os_state \<Rightarrow> ('w, 'p) os_state" where
  "OS_TLS_LockAcquire p_lock s =
     (case p_lock of
        None \<Rightarrow> s
      | Some i \<Rightarrow>
          if OSRunning s \<noteq> OS_STATE_OS_RUNNING then s
          else s\<lparr>Calls := Calls s @ [OSMutexPend i]\<rparr>)"

definition OS_TLS_LockRelease :: "nat option \<Rightarrow> ('w, 'p) os_state \<Rightarrow> ('w, 'p) os_state" where
  "OS_TLS_LockRelease p_lock s =
     (case p_lock of
        None \<Rightarrow> s
      | Some i \<Rightarrow>
          if OSRunning s \<noteq> OS_STATE_OS_RUNNING then s
          else s\<lparr>Calls := Calls s @ [OSMutexPost i]\<rparr>)"

subsection \<open>The runtime's address resolver\<close>

text \<open>\<open>seg_begin\<close> is \<^verbatim>\<open>__segment_begin("__DLIB_PERTHREAD")\<close> and \<open>symbol_offset\<close> is the
  runtime's macro \<^verbatim>\<open>__IAR_DLIB_PERTHREAD_SYMBOL_OFFSET\<close>; both come from the IAR tool
  chain. The sum is taken in \<^verbatim>\<open>uintptr_t\<close> and wraps.\<close>

definition iar_dlib_perthread_access ::
  "'p::len word \<Rightarrow> ('p word \<Rightarrow> 'p word) \<Rightarrow> 'p word \<Rightarrow> ('w::len, 'p) os_state \<Rightarrow> 'p word option" where
  "iar_dlib_perthread_access seg_begin symbol_offset symbp s =
     (let p_tls =
        (if OSRunning s \<noteq> OS_STATE_OS_RUNNING then Some seg_begin
         else (case OSTCBCurPtr s of
                 None \<Rightarrow> None
               | Some t \<Rightarrow>
                   if unat (OS_TLS_LibID s) < length (TLS_Tbl (TCBs s t))
                   then Some (TLS_Tbl (TCBs s t) ! unat (OS_TLS_LibID s))
                   else None))
      in case p_tls of
           None \<Rightarrow> None
         | Some tls_start \<Rightarrow> Some (tls_start + symbol_offset symbp))"

subsection \<open>Free list, conservation and reachable pool states\<close>

text \<open>\<open>free_chain tbl p fl\<close>: following \<^verbatim>\<open>NextPtr\<close> from \<open>p\<close> visits exactly the entries
  \<open>fl\<close>, in this order, and then reaches the null pointer.\<close>

primrec free_chain :: "(nat \<Rightarrow> os_tls_lock) \<Rightarrow> nat option \<Rightarrow> nat list \<Rightarrow> bool" where
  "free_chain tbl p [] \<longleftrightarrow> p = None"
| "free_chain tbl p (i # is) \<longleftrightarrow> p = Some i \<and> free_chain tbl (NextPtr (tbl i)) is"

text \<open>\<open>free_list n tbl p\<close> walks the list from \<open>p\<close> for at most \<open>n\<close> entries; \<open>None\<close> when
  the null pointer is not reached within \<open>n\<close> entries.\<close>

fun free_list :: "nat \<Rightarrow> (nat \<Rightarrow> os_tls_lock) \<Rightarrow> nat option \<Rightarrow> nat list option" where
  "free_list n tbl None = Some []"
| "free_list 0 tbl (Some i) = None"
| "free_list (Suc n) tbl (Some i) = map_option ((#) i) (free_list n tbl (NextPtr (tbl i)))"

text \<open>Conservation, for a set \<open>held\<close> of checked-out entries: the free list ends
  within \<^verbatim>\<open>OS_TLS_LOCK_MAX\<close> entries and repeats none, no entry is both free and held,
  every entry of the table is free or held, and the two counts add up to the
  capacity.\<close>

definition pool_conserved :: "'w::len os_cfg \<Rightarrow> ('w, 'p) os_state \<Rightarrow> nat set \<Rightarrow> bool" where
  "pool_conserved cfg s held =
     (case free_list (OS_TLS_LOCK_MAX cfg) (OS_TLS_LockPoolTbl s) (OS_TLS_LockPoolListPtr s) of
        None \<Rightarrow> False
      | Some fl \<Rightarrow>
          distinct fl \<and> set fl \<inter> held = {} \<and> set fl \<union> held = {..<OS_TLS_LOCK_MAX cfg} \<and>
          length fl + card held = OS_TLS_LOCK_MAX cfg)"

text \<open>\<open>lock_reach cfg s held\<close>: the state \<open>s\<close> is reached from the one \<^verbatim>\<open>OS_TLS_Init\<close>
  establishes by calls of \<^verbatim>\<open>OS_TLS_LockCreate\<close> and \<^verbatim>\<open>OS_TLS_LockDel\<close>, where
  \<^verbatim>\<open>OS_TLS_LockDel\<close> is given the null handle or a handle that a create has returned and
  no delete has taken back since; \<open>held\<close> is the set of those handles.\<close>

inductive lock_reach :: "'w::len os_cfg \<Rightarrow> ('w, 'p) os_state \<Rightarrow> nat set \<Rightarrow> bool"
  for cfg :: "'w os_cfg" where
  init: "OS_TLS_Init cfg s0 = Some (err, s) \<Longrightarrow> lock_reach cfg s {}"
| create: "lock_reach cfg s held \<Longrightarrow> s' = OS_TLS_LockCreate (Some a) err s \<Longrightarrow>
     lock_reach cfg s' (held \<union> set_option (Rmtx s' a))"
| create_null: "lock_reach cfg s held \<Longrightarrow> lock_reach cfg (OS_TLS_LockCreate None err s) held"
| delete: "lock_reach cfg s held \<Longrightarrow> i \<in> held \<Longrightarrow>
     lock_reach cfg (OS_TLS_LockDel (Some i) err s) (held - {i})"
| delete_null: "lock_reach cfg s held \<Longrightarrow> lock_reach cfg (OS_TLS_LockDel None err s) held"

text \<open>The table after the loop of \<^verbatim>\<open>OS_TLS_Init\<close> has run from \<open>lo\<close> to \<open>hi\<close>, and
  the table \<^verbatim>\<open>OS_TLS_Init\<close> leaves.\<close>

definition chained :: "nat \<Rightarrow> nat \<Rightarrow> (nat \<Rightarrow> os_tls_lock) \<Rightarrow> nat \<Rightarrow> os_tls_lock" where
  "chained lo hi tbl j = (if lo \<le> j \<and> j < hi then (tbl j)\<lparr>NextPtr := Some (j + 1)\<rparr> else tbl j)"

definition initial_pool :: "nat \<Rightarrow> (nat \<Rightarrow> os_tls_lock) \<Rightarrow> nat \<Rightarrow> os_tls_lock" where
  "initial_pool n tbl =
     (let tbl' = chained 0 (n - 1) tbl in tbl'(n - 1 := (tbl' (n - 1))\<lparr>NextPtr := None\<rparr>))"

definition pool_inv :: "nat \<Rightarrow> ('w, 'p) os_state \<Rightarrow> nat set \<Rightarrow> nat list \<Rightarrow> bool" where
  "pool_inv n s held fl \<longleftrightarrow>
     free_chain (OS_TLS_LockPoolTbl s) (OS_TLS_LockPoolListPtr s) fl \<and> distinct fl \<and>
     set fl \<inter> held = {} \<and> set fl \<union> held = {..<n}"

subsection \<open>A concrete system\<close>

text \<open>Four TLS slots and two locks on a 32-bit CPU, argument checking on. \<open>ex_boot\<close> is
  the zero-initialised image before \<^verbatim>\<open>OSInit()\<close>; \<open>ex_ready\<close> is the state after
  \<^verbatim>\<open>OS_TLS_Init\<close>.\<close>

definition ex_cfg :: "32 os_cfg" where
  "ex_cfg = \<lparr>OS_CFG_TLS_TBL_SIZE = 4, OS_CFG_ARG_CHK_EN = True, OS_TLS_LOCK_MAX = 2,
     OS_OPT_TASK_NO_TLS = 0x0100\<rparr>"

definition ex_boot :: "(32, 32) os_state" where
  "ex_boot = \<lparr>OS_TLS_NextAvailID = 0, OS_TLS_LibID = 0,
     OS_TLS_LockPoolTbl = (\<lambda>i. \<lparr>NextPtr = None\<rparr>), OS_TLS_LockPoolListPtr = None,
     OSRunning = OS_STATE_OS_STOPPED, OSTCBCurPtr = None, OSTCBHighRdyPtr = None,
     TCBs = (\<lambda>t. \<lparr>Opt = 0, TLS_Tbl = replicate 4 0\<rparr>), Rmtx = (\<lambda>a. None), Calls = []\<rparr>"

definition ex_ready :: "(32, 32) os_state" where
  "ex_ready = (case OS_TLS_Init ex_cfg ex_boot of None \<Rightarrow> ex_boot | Some (err, s) \<Rightarrow> s)"

text \<open>One lock created into the runtime's variable 0.\<close>

definition ex_one_out :: "(32, 32) os_state" where
  "ex_one_out = OS_TLS_LockCreate (Some 0) OS_ERR_NONE ex_ready"

text \<open>That lock deleted once, and deleted a second time.\<close>

definition ex_deleted :: "(32, 32) os_state" where
  "ex_deleted = OS_TLS_LockDel (Rmtx ex_one_out 0) OS_ERR_NONE ex_one_out"

definition ex_deleted_twice :: "(32, 32) os_state" where
  "ex_deleted_twice = OS_TLS_LockDel (Rmtx ex_one_out 0) OS_ERR_NONE ex_deleted"

text \<open>Task 7, created with TLS enabled: its table is all zero when the create hook runs,
  and the runtime's allocator returns the segment at \<open>0x20001000\<close>. Then the kernel is
  started with task 7 running.\<close>

definition ex_task_created :: "(32, 32) os_state" where
  "ex_task_created =
     (case OS_TLS_TaskCreate ex_cfg 7 0x20001000 ex_ready of None \<Rightarrow> ex_ready | Some s \<Rightarrow> s)"

definition ex_running :: "(32, 32) os_state" where
  "ex_running = ex_task_created\<lparr>OSRunning := OS_STATE_OS_RUNNING, OSTCBCurPtr := Some 7\<rparr>"

text \<open>A second TLS slot issued to a client after initialisation.\<close>

definition ex_slot_issued :: "(32, 32) os_state" where
  "ex_slot_issued = snd (OS_TLS_GetID ex_cfg ex_ready)"

text \<open>Both locks of the pool created.\<close>

definition ex_exhausted :: "(32, 32) os_state" where
  "ex_exhausted = OS_TLS_LockCreate (Some 1) OS_ERR_NONE ex_one_out"

text \<open>The static main-thread segment at \<open>0x20000000\<close>, and the offset of a symbol in it.\<close>

definition ex_seg_begin :: "32 word" where
  "ex_seg_begin = 0x20000000"

definition ex_symbol_offset :: "32 word \<Rightarrow> 32 word" where
  "ex_symbol_offset symbp = symbp - ex_seg_begin"

section \<open>Properties\<close>

subsection \<open>Auxiliary facts\<close>

lemma unat_succ_below:
  fixes c cap :: "'w::len word"
  assumes "c < cap"
  shows "unat (c + 1) = Suc (unat c)"
proof -
  have "unat c < unat cap"
    using assms by (simp add: word_less_nat_alt)
  moreover have "unat cap < 2 ^ LENGTH('w)"
    by (rule unsigned_less)
  ultimately have "unat c + 1 < 2 ^ LENGTH('w)"
    by linarith
  then show ?thesis
    by (simp add: unat_word_ariths)
qed

lemma OS_TLS_GetID_ok:
  "OS_TLS_NextAvailID s < OS_CFG_TLS_TBL_SIZE cfg \<Longrightarrow>
   OS_TLS_GetID cfg s =
     ((OS_TLS_NextAvailID s, OS_ERR_NONE), s\<lparr>OS_TLS_NextAvailID := OS_TLS_NextAvailID s + 1\<rparr>)"
  by (simp add: OS_TLS_GetID_def not_le [symmetric])

lemma OS_TLS_GetID_full:
  "OS_CFG_TLS_TBL_SIZE cfg \<le> OS_TLS_NextAvailID s \<Longrightarrow>
   OS_TLS_GetID cfg s = ((OS_CFG_TLS_TBL_SIZE cfg, OS_ERR_TLS_NO_MORE_AVAIL), s)"
  by (simp add: OS_TLS_GetID_def)

lemma get_ids_below:
  "unat (OS_TLS_NextAvailID s) + n \<le> unat (OS_CFG_TLS_TBL_SIZE cfg) \<Longrightarrow>
   get_ids cfg n s =
     (map (\<lambda>k. (OS_TLS_NextAvailID s + of_nat k, OS_ERR_NONE)) [0..<n],
      s\<lparr>OS_TLS_NextAvailID := OS_TLS_NextAvailID s + of_nat n\<rparr>)"
proof (induction n arbitrary: s)
  case 0
  then show ?case by simp
next
  case (Suc n)
  let ?c = "OS_TLS_NextAvailID s"
  let ?s' = "s\<lparr>OS_TLS_NextAvailID := ?c + 1\<rparr>"
  from Suc.prems have lt: "?c < OS_CFG_TLS_TBL_SIZE cfg"
    by (simp add: word_less_nat_alt)
  then have u: "unat (?c + 1) = Suc (unat ?c)" by (rule unat_succ_below)
  with Suc.prems have "unat (OS_TLS_NextAvailID ?s') + n \<le> unat (OS_CFG_TLS_TBL_SIZE cfg)"
    by simp
  from Suc.IH [OF this] show ?case
    using lt
    by (simp add: OS_TLS_GetID_ok Let_def map_upt_Suc del: upt_Suc)
qed

lemma get_ids_successes:
  "length (filter (\<lambda>r. snd r = OS_ERR_NONE) (fst (get_ids cfg n s)))
     \<le> unat (OS_CFG_TLS_TBL_SIZE cfg) - unat (OS_TLS_NextAvailID s)"
proof (induction n arbitrary: s)
  case 0
  then show ?case by simp
next
  case (Suc n)
  show ?case
  proof (cases "OS_TLS_NextAvailID s < OS_CFG_TLS_TBL_SIZE cfg")
    case True
    let ?s' = "s\<lparr>OS_TLS_NextAvailID := OS_TLS_NextAvailID s + 1\<rparr>"
    from True have u: "unat (OS_TLS_NextAvailID ?s') = Suc (unat (OS_TLS_NextAvailID s))"
      by (simp add: unat_succ_below)
    from True have "unat (OS_TLS_NextAvailID s) < unat (OS_CFG_TLS_TBL_SIZE cfg)"
      by (simp add: word_less_nat_alt)
    with Suc.IH [of ?s'] u True show ?thesis
      by (simp add: OS_TLS_GetID_ok split_beta)
  next
    case False
    then have "OS_CFG_TLS_TBL_SIZE cfg \<le> OS_TLS_NextAvailID s" by (simp add: not_less)
    with Suc.IH [of s] show ?thesis
      by (simp add: OS_TLS_GetID_full split_beta)
  qed
qed

text \<open>The loop of \<^verbatim>\<open>OS_TLS_Init\<close> ends exactly when \<^verbatim>\<open>OS_TLS_LOCK_MAX - 1u\<close> fits the
  16-bit index.\<close>

lemma OS_TLS_Init_loop_returns:
  assumes "lock_max \<le> 65536" and "unat ix \<le> lock_max - 1"
  shows "OS_TLS_Init_loop lock_max ix tbl = Some (chained (unat ix) (lock_max - 1) tbl)"
  using assms(2)
proof (induction "lock_max - 1 - unat ix" arbitrary: ix tbl)
  case 0
  then have "\<not> unat ix < lock_max - 1" by simp
  then have "OS_TLS_Init_loop lock_max ix tbl = Some tbl"
    by (subst OS_TLS_Init_loop.simps) simp
  moreover have "chained (unat ix) (lock_max - 1) tbl = tbl"
    using 0 by (auto simp: chained_def fun_eq_iff)
  ultimately show ?case by simp
next
  case (Suc k)
  then have lt: "unat ix < lock_max - 1" by simp
  with assms(1) have "unat ix < 65535" by simp
  then have "ix < 65535" by (simp add: word_less_nat_alt)
  then have u: "unat (ix + 1) = Suc (unat ix)" by (rule unat_succ_below)
  let ?tbl = "tbl(unat ix := (tbl (unat ix))\<lparr>NextPtr := Some (unat ix + 1)\<rparr>)"
  have "k = lock_max - 1 - unat (ix + 1)" using Suc.hyps(2) u by simp
  moreover have "unat (ix + 1) \<le> lock_max - 1" using lt u by simp
  ultimately have "OS_TLS_Init_loop lock_max (ix + 1) ?tbl =
      Some (chained (unat (ix + 1)) (lock_max - 1) ?tbl)"
    by (rule Suc.hyps(1))
  moreover have "chained (unat (ix + 1)) (lock_max - 1) ?tbl = chained (unat ix) (lock_max - 1) tbl"
    using lt u by (auto simp: chained_def fun_eq_iff)
  moreover have "OS_TLS_Init_loop lock_max ix tbl = OS_TLS_Init_loop lock_max (ix + 1) ?tbl"
    using lt by (subst OS_TLS_Init_loop.simps) simp
  ultimately show ?case by simp
qed

lemma OS_TLS_Init_loop_bounded:
  assumes "OS_TLS_Init_loop lock_max ix tbl = Some tbl'"
  shows "lock_max \<le> 65536"
proof (rule OS_TLS_Init_loop.raw_induct
    [where P = "\<lambda>lock_max ix tbl tbl'. lock_max \<le> 65536", OF _ assms])
  fix f :: "nat \<Rightarrow> 16 word \<Rightarrow> (nat \<Rightarrow> os_tls_lock) \<Rightarrow> (nat \<Rightarrow> os_tls_lock) option"
    and lock_max ix tbl tbl'
  assume ih: "\<And>lock_max ix tbl tbl'. f lock_max ix tbl = Some tbl' \<Longrightarrow> lock_max \<le> 65536"
    and step: "(if unat ix < lock_max - 1
      then f lock_max (ix + 1)
             (tbl(unat ix := (tbl (unat ix))\<lparr>NextPtr := Some (unat ix + 1)\<rparr>))
      else Some tbl) = Some tbl'"
  show "lock_max \<le> 65536"
  proof (cases "unat ix < lock_max - 1")
    case True
    with step ih show ?thesis by simp
  next
    case False
    have "unat ix < 2 ^ LENGTH(16)" by (rule unsigned_less)
    with False show ?thesis by simp
  qed
qed

lemma OS_TLS_Init_pool:
  assumes "OS_TLS_Init cfg s0 = Some (err, s)"
  shows "OS_TLS_LockPoolTbl s = initial_pool (OS_TLS_LOCK_MAX cfg) (OS_TLS_LockPoolTbl s0) \<and>
         OS_TLS_LockPoolListPtr s = Some 0"
proof -
  let ?g = "OS_TLS_GetID cfg (s0\<lparr>OS_TLS_NextAvailID := 0\<rparr>)"
  have t: "OS_TLS_LockPoolTbl (snd ?g) = OS_TLS_LockPoolTbl s0"
    by (simp add: OS_TLS_GetID_def)
  from assms obtain tbl where
    l: "OS_TLS_Init_loop (OS_TLS_LOCK_MAX cfg) 0 (OS_TLS_LockPoolTbl s0) = Some tbl"
    by (auto simp: OS_TLS_Init_def Let_def split_beta t split: option.splits)
  then have "OS_TLS_LOCK_MAX cfg \<le> 65536" by (rule OS_TLS_Init_loop_bounded)
  then have "OS_TLS_Init_loop (OS_TLS_LOCK_MAX cfg) 0 (OS_TLS_LockPoolTbl s0) =
      Some (chained 0 (OS_TLS_LOCK_MAX cfg - 1) (OS_TLS_LockPoolTbl s0))"
    using OS_TLS_Init_loop_returns [of "OS_TLS_LOCK_MAX cfg" 0] by simp
  with assms show ?thesis
    by (auto simp: OS_TLS_Init_def Let_def split_beta t initial_pool_def)
qed

lemma OS_TLS_Init_returns:
  assumes "0 < OS_CFG_TLS_TBL_SIZE cfg" and "OS_TLS_LOCK_MAX cfg \<le> 65536"
  shows "OS_TLS_Init cfg s =
     Some (OS_ERR_NONE,
       s\<lparr>OS_TLS_NextAvailID := 1, OS_TLS_LibID := 0,
         OS_TLS_LockPoolTbl := initial_pool (OS_TLS_LOCK_MAX cfg) (OS_TLS_LockPoolTbl s),
         OS_TLS_LockPoolListPtr := Some 0\<rparr>)"
proof -
  have "\<not> OS_CFG_TLS_TBL_SIZE cfg \<le> 0" using assms(1) by (simp add: not_le)
  then have g: "OS_TLS_GetID cfg (s\<lparr>OS_TLS_NextAvailID := 0\<rparr>) =
      ((0, OS_ERR_NONE), s\<lparr>OS_TLS_NextAvailID := 1\<rparr>)"
    by (simp add: OS_TLS_GetID_def)
  have l: "OS_TLS_Init_loop (OS_TLS_LOCK_MAX cfg) 0 tbl =
      Some (chained 0 (OS_TLS_LOCK_MAX cfg - 1) tbl)" for tbl
    using OS_TLS_Init_loop_returns [OF assms(2), of 0 tbl] by simp
  show ?thesis
    by (simp add: OS_TLS_Init_def g l initial_pool_def Let_def)
qed

lemma free_chain_upd:
  "i \<notin> set fl \<Longrightarrow> free_chain (tbl(i := e)) p fl = free_chain tbl p fl"
  by (induction fl arbitrary: p) auto

lemma free_chain_free_list:
  "free_chain tbl p fl \<Longrightarrow> length fl \<le> n \<Longrightarrow> free_list n tbl p = Some fl"
proof (induction fl arbitrary: p n)
  case Nil
  then show ?case by simp
next
  case (Cons i fl)
  then obtain m where "n = Suc m" by (cases n) auto
  with Cons show ?case by simp
qed

lemma free_chain_initial:
  assumes "\<And>j. j < n - 1 \<Longrightarrow> NextPtr (tbl j) = Some (j + 1)"
    and "NextPtr (tbl (n - 1)) = None"
  shows "k < n \<Longrightarrow> free_chain tbl (Some k) [k..<n]"
proof (induction "n - k" arbitrary: k)
  case 0
  then show ?case by simp
next
  case (Suc d)
  show ?case
  proof (cases "Suc k = n")
    case True
    then have "n - 1 = k" by simp
    with assms(2) have "NextPtr (tbl k) = None" by simp
    moreover from True have "[k..<n] = [k]" by (simp add: upt_rec)
    ultimately show ?thesis by simp
  next
    case False
    with Suc.prems have lt: "Suc k < n" by simp
    then have "free_chain tbl (Some (Suc k)) [Suc k..<n]"
      using Suc.hyps by simp
    moreover have "NextPtr (tbl k) = Some (Suc k)" using lt assms(1) [of k] by simp
    moreover have "[k..<n] = k # [Suc k..<n]" using Suc.prems by (simp add: upt_rec)
    ultimately show ?thesis by simp
  qed
qed

lemma free_chain_initial_pool:
  assumes "0 < n"
  shows "free_chain (initial_pool n tbl) (Some 0) [0..<n]"
  using _ _ assms
proof (rule free_chain_initial)
  show "NextPtr (initial_pool n tbl j) = Some (j + 1)" if "j < n - 1" for j
    using that by (simp add: initial_pool_def chained_def Let_def)
  show "NextPtr (initial_pool n tbl (n - 1)) = None"
    by (simp add: initial_pool_def Let_def)
qed

lemma pool_inv_card:
  assumes "pool_inv n s held fl"
  shows "length fl + card held = n"
proof -
  from assms have d: "distinct fl" and i: "set fl \<inter> held = {}" and u: "set fl \<union> held = {..<n}"
    by (simp_all add: pool_inv_def)
  have "finite held" using u by (metis finite_Un finite_lessThan)
  then have "card (set fl \<union> held) = card (set fl) + card held"
    using i by (simp add: card_Un_disjoint)
  with d u show ?thesis by (simp add: distinct_card)
qed

lemma pool_inv_conserved:
  assumes "pool_inv (OS_TLS_LOCK_MAX cfg) s held fl"
  shows "pool_conserved cfg s held"
proof -
  have len: "length fl + card held = OS_TLS_LOCK_MAX cfg"
    using assms by (rule pool_inv_card)
  then have "length fl \<le> OS_TLS_LOCK_MAX cfg" by simp
  with assms have "free_list (OS_TLS_LOCK_MAX cfg) (OS_TLS_LockPoolTbl s) (OS_TLS_LockPoolListPtr s) = Some fl"
    by (simp add: pool_inv_def free_chain_free_list)
  with assms len show ?thesis by (simp add: pool_conserved_def pool_inv_def)
qed

lemma pool_inv_LockCreate:
  assumes "pool_inv n s held fl"
  shows "\<exists>fl'. pool_inv n (OS_TLS_LockCreate (Some a) err s)
           (held \<union> set_option (Rmtx (OS_TLS_LockCreate (Some a) err s) a)) fl'"
proof (cases fl)
  case Nil
  with assms have "OS_TLS_LockPoolListPtr s = None" by (simp add: pool_inv_def)
  with assms show ?thesis
    by (auto simp: pool_inv_def OS_TLS_LockCreate_def)
next
  case (Cons i rest)
  with assms have h: "OS_TLS_LockPoolListPtr s = Some i"
    and r: "free_chain (OS_TLS_LockPoolTbl s) (NextPtr (OS_TLS_LockPoolTbl s i)) rest"
    and ni: "i \<notin> set rest"
    by (simp_all add: pool_inv_def)
  show ?thesis
  proof (cases "err = OS_ERR_NONE")
    case True
    with assms Cons h r have "pool_inv n (OS_TLS_LockCreate (Some a) err s)
           (held \<union> set_option (Rmtx (OS_TLS_LockCreate (Some a) err s) a)) rest"
      by (auto simp: pool_inv_def OS_TLS_LockCreate_def Let_def)
    then show ?thesis ..
  next
    case False
    with assms Cons h r ni have "pool_inv n (OS_TLS_LockCreate (Some a) err s)
           (held \<union> set_option (Rmtx (OS_TLS_LockCreate (Some a) err s) a)) fl"
      by (auto simp: pool_inv_def OS_TLS_LockCreate_def Let_def free_chain_upd)
    then show ?thesis ..
  qed
qed

lemma pool_inv_LockDel:
  assumes "pool_inv n s held fl" and "i \<in> held"
  shows "pool_inv n (OS_TLS_LockDel (Some i) err s) (held - {i}) (i # fl)"
proof -
  from assms have "i \<notin> set fl" by (auto simp: pool_inv_def)
  with assms show ?thesis
    by (auto simp: pool_inv_def OS_TLS_LockDel_def free_chain_upd)
qed

lemma lock_reach_pool_inv:
  assumes "lock_reach cfg s held" and "0 < OS_TLS_LOCK_MAX cfg"
  shows "\<exists>fl. pool_inv (OS_TLS_LOCK_MAX cfg) s held fl"
  using assms
proof (induction rule: lock_reach.induct)
  case (init s0 err s)
  then have "pool_inv (OS_TLS_LOCK_MAX cfg) s {} [0..<OS_TLS_LOCK_MAX cfg]"
    using OS_TLS_Init_pool [OF init.hyps]
    by (simp add: pool_inv_def free_chain_initial_pool atLeast0LessThan)
  then show ?case ..
next
  case (create s held s' a err)
  then obtain fl where "pool_inv (OS_TLS_LOCK_MAX cfg) s held fl" by auto
  then show ?case unfolding create.hyps(2) by (rule pool_inv_LockCreate)
next
  case (create_null s held err)
  then show ?case by (simp add: OS_TLS_LockCreate_def)
next
  case (delete s held i err)
  then obtain fl where "pool_inv (OS_TLS_LOCK_MAX cfg) s held fl" by auto
  then have "pool_inv (OS_TLS_LOCK_MAX cfg) (OS_TLS_LockDel (Some i) err s) (held - {i}) (i # fl)"
    using delete.hyps(2) by (rule pool_inv_LockDel)
  then show ?case ..
next
  case (delete_null s held err)
  then show ?case by (simp add: OS_TLS_LockDel_def)
qed

lemma LockCreate_after_LockDel:
  "Rmtx (OS_TLS_LockCreate (Some a) OS_ERR_NONE (OS_TLS_LockDel (Some i) err s)) a = Some i"
  by (simp add: OS_TLS_LockCreate_def OS_TLS_LockDel_def Let_def)

text \<open>The concrete system, evaluated.\<close>

lemma ex_Init: "OS_TLS_Init ex_cfg ex_boot =
  Some (OS_ERR_NONE,
    ex_boot\<lparr>OS_TLS_NextAvailID := 1, OS_TLS_LibID := 0,
      OS_TLS_LockPoolTbl := initial_pool 2 (OS_TLS_LockPoolTbl ex_boot),
      OS_TLS_LockPoolListPtr := Some 0\<rparr>)"
  using OS_TLS_Init_returns [of ex_cfg ex_boot] by (simp add: ex_cfg_def)

lemma ex_ready_eq: "ex_ready =
    ex_boot\<lparr>OS_TLS_NextAvailID := 1, OS_TLS_LibID := 0,
      OS_TLS_LockPoolTbl := initial_pool 2 (OS_TLS_LockPoolTbl ex_boot),
      OS_TLS_LockPoolListPtr := Some 0\<rparr>"
  by (simp add: ex_ready_def ex_Init)

lemma initial_pool_2:
  "NextPtr (initial_pool 2 tbl 0) = Some 1" "NextPtr (initial_pool 2 tbl (Suc 0)) = None"
  by (simp_all add: initial_pool_def chained_def Let_def)

lemma ex_one_out_facts:
  "Rmtx ex_one_out 0 = Some 0" "OS_TLS_LockPoolListPtr ex_one_out = Some 1"
  by (simp_all add: ex_one_out_def ex_ready_eq OS_TLS_LockCreate_def Let_def initial_pool_2)

lemma ex_ready_fields:
  "OS_TLS_NextAvailID ex_ready = 1" "OS_TLS_LibID ex_ready = 0"
  "OS_TLS_LockPoolListPtr ex_ready = Some 0" "OSRunning ex_ready = OS_STATE_OS_STOPPED"
  "OSTCBCurPtr ex_ready = None" "TCBs ex_ready t = \<lparr>Opt = 0, TLS_Tbl = replicate 4 0\<rparr>"
  by (simp_all add: ex_ready_eq ex_boot_def)

lemma ex_cfg_fields:
  "OS_CFG_TLS_TBL_SIZE ex_cfg = 4" "OS_CFG_ARG_CHK_EN ex_cfg" "OS_TLS_LOCK_MAX ex_cfg = 2"
  "OS_OPT_TASK_NO_TLS ex_cfg = 0x0100"
  by (simp_all add: ex_cfg_def)

lemma ex_slot_issued_eq: "ex_slot_issued = ex_ready\<lparr>OS_TLS_NextAvailID := 2\<rparr>"
  by (simp add: ex_slot_issued_def OS_TLS_GetID_def ex_ready_fields ex_cfg_fields word_le_nat_alt)

lemma ex_task_created_eq:
  "ex_task_created =
     ex_ready\<lparr>TCBs := (TCBs ex_ready)
         (7 := \<lparr>Opt = 0, TLS_Tbl = (replicate 4 0)[0 := 0x20001000]\<rparr>),
       Calls := Calls ex_ready @
         [iar_dlib_perthread_allocate, iar_dlib_perthread_initialize 0x20001000]\<rparr>"
  by (simp add: ex_task_created_def OS_TLS_TaskCreate_def ex_ready_fields ex_cfg_fields
      OS_OPT_NONE_def)

lemma ex_exhausted_head: "OS_TLS_LockPoolListPtr ex_exhausted = None"
  by (simp add: ex_exhausted_def ex_one_out_def ex_ready_eq OS_TLS_LockCreate_def Let_def
      initial_pool_2)

lemma ex_get_ids_4:
  "get_ids ex_cfg 4 ex_boot =
     ([(0, OS_ERR_NONE), (1, OS_ERR_NONE), (2, OS_ERR_NONE), (3, OS_ERR_NONE)],
      ex_boot\<lparr>OS_TLS_NextAvailID := 4\<rparr>)"
proof -
  have "get_ids ex_cfg (Suc (Suc (Suc (Suc 0)))) ex_boot =
     ([(0, OS_ERR_NONE), (1, OS_ERR_NONE), (2, OS_ERR_NONE), (3, OS_ERR_NONE)],
      ex_boot\<lparr>OS_TLS_NextAvailID := 4\<rparr>)"
    by (simp add: OS_TLS_GetID_def ex_cfg_def ex_boot_def word_le_nat_alt)
  moreover have four: "(4::nat) = Suc (Suc (Suc (Suc 0)))" by simp
  ultimately show ?thesis by (subst four)
qed

subsection \<open>C1: conservation in the lock pool\<close>

text \<open>
  Claim C1, as amended. Start from the state that \<^verbatim>\<open>OS_TLS_Init\<close> establishes, with a
  pool of at least one entry, and run any sequence of \<^verbatim>\<open>OS_TLS_LockCreate\<close> and
  \<^verbatim>\<open>OS_TLS_LockDel\<close> calls in which every delete is given the null handle or a handle
  that is checked out at that moment. Then the free list is a finite list without
  repetition, no entry is both free and checked out, every entry is one of the two,
  and the number of free entries plus the number of checked-out entries is
  \<^verbatim>\<open>OS_TLS_LOCK_MAX\<close>. Deleting a checked-out handle puts its entry at the head of the
  free list whatever error \<^verbatim>\<open>OSMutexDel\<close> reports, conservation still holds, and a
  create issued next returns that entry, provided \<^verbatim>\<open>OSMutexCreate\<close> reports no error.
\<close>

theorem lock_pool_conservation:
  assumes "lock_reach cfg s held" and "0 < OS_TLS_LOCK_MAX cfg"
  shows "pool_conserved cfg s held \<and>
    (\<forall>i \<in> held. \<forall>err a.
       OS_TLS_LockPoolListPtr (OS_TLS_LockDel (Some i) err s) = Some i \<and>
       pool_conserved cfg (OS_TLS_LockDel (Some i) err s) (held - {i}) \<and>
       Rmtx (OS_TLS_LockCreate (Some a) OS_ERR_NONE (OS_TLS_LockDel (Some i) err s)) a = Some i)"
proof (intro conjI ballI allI)
  from assms obtain fl where "pool_inv (OS_TLS_LOCK_MAX cfg) s held fl"
    using lock_reach_pool_inv by blast
  then show "pool_conserved cfg s held" by (rule pool_inv_conserved)
next
  fix i err a
  assume i: "i \<in> held"
  show "OS_TLS_LockPoolListPtr (OS_TLS_LockDel (Some i) err s) = Some i"
    by (simp add: OS_TLS_LockDel_def)
  from assms(1) i have "lock_reach cfg (OS_TLS_LockDel (Some i) err s) (held - {i})"
    by (rule lock_reach.delete)
  then obtain fl where "pool_inv (OS_TLS_LOCK_MAX cfg) (OS_TLS_LockDel (Some i) err s) (held - {i}) fl"
    using lock_reach_pool_inv assms(2) by blast
  then show "pool_conserved cfg (OS_TLS_LockDel (Some i) err s) (held - {i})"
    by (rule pool_inv_conserved)
  show "Rmtx (OS_TLS_LockCreate (Some a) OS_ERR_NONE (OS_TLS_LockDel (Some i) err s)) a = Some i"
    by (rule LockCreate_after_LockDel)
qed

text \<open>The amended claim at the concrete system, with one lock checked out and then
  deleted while \<^verbatim>\<open>OSMutexDel\<close> reports an error.\<close>

theorem lock_pool_conservation_witness:
  "lock_reach ex_cfg ex_one_out {0} \<and> 0 < OS_TLS_LOCK_MAX ex_cfg \<and>
   pool_conserved ex_cfg ex_one_out {0} \<and>
   pool_conserved ex_cfg (OS_TLS_LockDel (Some 0) (OS_ERR_OTHER 1) ex_one_out) {} \<and>
   Rmtx (OS_TLS_LockCreate (Some 1) OS_ERR_NONE
          (OS_TLS_LockDel (Some 0) (OS_ERR_OTHER 1) ex_one_out)) 1 = Some 0"
proof -
  have "lock_reach ex_cfg ex_ready {}"
    using ex_Init unfolding ex_ready_eq by (rule lock_reach.init)
  then have "lock_reach ex_cfg ex_one_out ({} \<union> set_option (Rmtx ex_one_out 0))"
    using ex_one_out_def by (rule lock_reach.create)
  then have r: "lock_reach ex_cfg ex_one_out {0}"
    by (simp add: ex_one_out_facts)
  have p: "0 < OS_TLS_LOCK_MAX ex_cfg" by (simp add: ex_cfg_def)
  from lock_pool_conservation [OF r p] r p show ?thesis by simp
qed

text \<open>
  Claim C1 as stated fails. The code has no guard against deleting a handle twice:
  after create, delete, delete of the same handle, the entry's \<^verbatim>\<open>NextPtr\<close> points to
  the entry itself, two creates in a row hand out the same entry 0, and the free list
  never reaches the null pointer. And after deleting a checked-out handle, a create
  returns the null handle when \<^verbatim>\<open>OSMutexCreate\<close> reports an error.
\<close>

theorem lock_pool_double_delete_counterexample:
  "Rmtx ex_one_out 0 = Some 0 \<and>
   Rmtx (OS_TLS_LockCreate (Some 1) OS_ERR_NONE ex_deleted_twice) 1 = Some 0 \<and>
   Rmtx (OS_TLS_LockCreate (Some 2) OS_ERR_NONE
          (OS_TLS_LockCreate (Some 1) OS_ERR_NONE ex_deleted_twice)) 2 = Some 0 \<and>
   \<not> pool_conserved ex_cfg ex_deleted_twice {} \<and>
   Rmtx (OS_TLS_LockCreate (Some 1) (OS_ERR_OTHER 1) ex_deleted) 1 = None"
  by (simp add: ex_deleted_twice_def ex_deleted_def ex_one_out_facts pool_conserved_def
      OS_TLS_LockCreate_def OS_TLS_LockDel_def Let_def ex_cfg_def numeral_2_eq_2)

subsection \<open>C2: the slot allocator issues 0, 1, 2, ... and then reports exhaustion\<close>

text \<open>
  Claim C2. Starting with the counter at 0, any \<open>n\<close> calls of \<^verbatim>\<open>OS_TLS_GetID\<close> with
  \<open>n\<close> at most \<^verbatim>\<open>OS_CFG_TLS_TBL_SIZE\<close> return the ids \<open>0, 1, ..., n - 1\<close> in this
  order, each with \<^verbatim>\<open>OS_ERR_NONE\<close>, and leave the counter at \<open>n\<close>. Once the counter has
  reached \<^verbatim>\<open>OS_CFG_TLS_TBL_SIZE\<close>, a call sets \<^verbatim>\<open>OS_ERR_TLS_NO_MORE_AVAIL\<close>, returns
  \<^verbatim>\<open>OS_CFG_TLS_TBL_SIZE\<close> and changes nothing.
\<close>

theorem OS_TLS_GetID_sequence:
  "(OS_TLS_NextAvailID s = 0 \<and> n \<le> unat (OS_CFG_TLS_TBL_SIZE cfg) \<longrightarrow>
      map (\<lambda>r. unat (fst r)) (fst (get_ids cfg n s)) = [0..<n] \<and>
      (\<forall>r \<in> set (fst (get_ids cfg n s)). snd r = OS_ERR_NONE) \<and>
      unat (OS_TLS_NextAvailID (snd (get_ids cfg n s))) = n) \<and>
   (OS_CFG_TLS_TBL_SIZE cfg \<le> OS_TLS_NextAvailID s \<longrightarrow>
      OS_TLS_GetID cfg s = ((OS_CFG_TLS_TBL_SIZE cfg, OS_ERR_TLS_NO_MORE_AVAIL), s))"
proof (intro conjI impI)
  assume a: "OS_TLS_NextAvailID s = 0 \<and> n \<le> unat (OS_CFG_TLS_TBL_SIZE cfg)"
  then have g: "get_ids cfg n s =
     (map (\<lambda>k. (of_nat k, OS_ERR_NONE)) [0..<n], s\<lparr>OS_TLS_NextAvailID := of_nat n\<rparr>)"
    using get_ids_below [of s n cfg] by simp
  have u: "unat (of_nat k :: 'a word) = k" if "k \<le> n" for k
    using that a le_unat_uoi [of k "OS_CFG_TLS_TBL_SIZE cfg"] by simp
  show "map (\<lambda>r. unat (fst r)) (fst (get_ids cfg n s)) = [0..<n]"
    by (simp add: g comp_def) (rule map_idI, simp add: u)
  show "\<forall>r \<in> set (fst (get_ids cfg n s)). snd r = OS_ERR_NONE"
    by (auto simp: g)
  show "unat (OS_TLS_NextAvailID (snd (get_ids cfg n s))) = n"
    using u by (simp add: g)
next
  assume "OS_CFG_TLS_TBL_SIZE cfg \<le> OS_TLS_NextAvailID s"
  then show "OS_TLS_GetID cfg s = ((OS_CFG_TLS_TBL_SIZE cfg, OS_ERR_TLS_NO_MORE_AVAIL), s)"
    by (rule OS_TLS_GetID_full)
qed

text \<open>Four slots: the ids are 0, 1, 2, 3, and the fifth call reports exhaustion with the
  sentinel 4.\<close>

theorem OS_TLS_GetID_sequence_witness:
  "OS_TLS_NextAvailID ex_boot = 0 \<and> 4 \<le> unat (OS_CFG_TLS_TBL_SIZE ex_cfg) \<and>
   map fst (fst (get_ids ex_cfg 4 ex_boot)) = [0, 1, 2, 3] \<and>
   map (\<lambda>r. unat (fst r)) (fst (get_ids ex_cfg 4 ex_boot)) = [0..<4] \<and>
   OS_CFG_TLS_TBL_SIZE ex_cfg \<le> OS_TLS_NextAvailID (snd (get_ids ex_cfg 4 ex_boot)) \<and>
   OS_TLS_GetID ex_cfg (snd (get_ids ex_cfg 4 ex_boot)) =
     ((4, OS_ERR_TLS_NO_MORE_AVAIL), snd (get_ids ex_cfg 4 ex_boot))"
proof -
  have a: "OS_TLS_NextAvailID ex_boot = 0 \<and> 4 \<le> unat (OS_CFG_TLS_TBL_SIZE ex_cfg)"
    by (simp add: ex_boot_def ex_cfg_def)
  have b: "OS_CFG_TLS_TBL_SIZE ex_cfg \<le> OS_TLS_NextAvailID (snd (get_ids ex_cfg 4 ex_boot))"
    by (simp add: ex_get_ids_4) (simp add: ex_cfg_def)
  have c: "map fst (fst (get_ids ex_cfg 4 ex_boot)) = [0, 1, 2, 3]"
    by (simp add: ex_get_ids_4)
  have d: "OS_CFG_TLS_TBL_SIZE ex_cfg = 4" by (simp add: ex_cfg_def)
  from OS_TLS_GetID_sequence [of ex_boot 4 ex_cfg]
    OS_TLS_GetID_sequence [of "snd (get_ids ex_cfg 4 ex_boot)" 0 ex_cfg] a b c d
  show ?thesis by simp
qed

subsection \<open>C3: a failed lock create leaves the pool as it was\<close>

text \<open>
  Claim C3. With an empty free list \<^verbatim>\<open>OS_TLS_LockCreate\<close> stores the null handle and
  changes nothing else. With entry \<open>i\<close> at the head of the list and an error from
  \<^verbatim>\<open>OSMutexCreate\<close>, it stores the null handle, and head and table are what they were
  before the call; only the call to the kernel has happened. With no error it stores
  the handle of entry \<open>i\<close> and the head moves to the entry's successor. A non-null
  handle is stored exactly when an entry was taken and its mutex created. A null
  \<^verbatim>\<open>p_lock\<close> makes the call a no-op.
\<close>

theorem OS_TLS_LockCreate_failure_atomic:
  "(OS_TLS_LockPoolListPtr s = None \<longrightarrow>
      OS_TLS_LockCreate (Some a) err s = s\<lparr>Rmtx := (Rmtx s)(a := None)\<rparr>) \<and>
   (OS_TLS_LockPoolListPtr s = Some i \<and> err \<noteq> OS_ERR_NONE \<longrightarrow>
      OS_TLS_LockCreate (Some a) err s =
        s\<lparr>Rmtx := (Rmtx s)(a := None), Calls := Calls s @ [OSMutexCreate i]\<rparr>) \<and>
   (OS_TLS_LockPoolListPtr s = Some i \<and> err = OS_ERR_NONE \<longrightarrow>
      OS_TLS_LockCreate (Some a) err s =
        s\<lparr>OS_TLS_LockPoolListPtr := NextPtr (OS_TLS_LockPoolTbl s i),
          Rmtx := (Rmtx s)(a := Some i), Calls := Calls s @ [OSMutexCreate i]\<rparr>) \<and>
   (Rmtx (OS_TLS_LockCreate (Some a) err s) a = Some i \<longleftrightarrow>
      OS_TLS_LockPoolListPtr s = Some i \<and> err = OS_ERR_NONE) \<and>
   OS_TLS_LockCreate None err s = s"
  by (auto simp: OS_TLS_LockCreate_def Let_def split: option.splits)

text \<open>The three cases at the concrete system: pool exhausted, mutex creation failing,
  and success.\<close>

theorem OS_TLS_LockCreate_failure_atomic_witness:
  "OS_TLS_LockPoolListPtr ex_exhausted = None \<and>
   OS_TLS_LockCreate (Some 2) OS_ERR_NONE ex_exhausted =
     ex_exhausted\<lparr>Rmtx := (Rmtx ex_exhausted)(2 := None)\<rparr> \<and>
   OS_TLS_LockPoolListPtr ex_ready = Some 0 \<and> OS_ERR_OTHER 1 \<noteq> OS_ERR_NONE \<and>
   OS_TLS_LockCreate (Some 2) (OS_ERR_OTHER 1) ex_ready =
     ex_ready\<lparr>Rmtx := (Rmtx ex_ready)(2 := None), Calls := Calls ex_ready @ [OSMutexCreate 0]\<rparr> \<and>
   Rmtx (OS_TLS_LockCreate (Some 2) OS_ERR_NONE ex_ready) 2 = Some 0"
  using OS_TLS_LockCreate_failure_atomic [of ex_exhausted 2 OS_ERR_NONE 0]
    OS_TLS_LockCreate_failure_atomic [of ex_ready 2 "OS_ERR_OTHER 1" 0]
    OS_TLS_LockCreate_failure_atomic [of ex_ready 2 OS_ERR_NONE 0]
  by (simp add: ex_exhausted_head ex_ready_fields)

subsection \<open>C4: an id that was not issued is rejected first\<close>

text \<open>
  Claim C4. With \<^verbatim>\<open>OS_CFG_ARG_CHK_EN\<close> set and \<open>id'\<close> at or above
  \<^verbatim>\<open>OS_TLS_NextAvailID\<close>, both \<^verbatim>\<open>OS_TLS_GetValue\<close> and \<^verbatim>\<open>OS_TLS_SetValue\<close> report
  \<^verbatim>\<open>OS_ERR_TLS_ID_INVALID\<close> for every task pointer, null or not, and in every state:
  the read returns 0 and the write leaves the whole state as it was.
\<close>

theorem OS_TLS_GetValue_SetValue_invalid_id:
  assumes "OS_CFG_ARG_CHK_EN cfg" and "OS_TLS_NextAvailID s \<le> id'"
  shows "OS_TLS_GetValue cfg p_tcb id' s = Some (0, OS_ERR_TLS_ID_INVALID) \<and>
         OS_TLS_SetValue cfg p_tcb id' val s = Some (OS_ERR_TLS_ID_INVALID, s)"
  using assms by (simp add: OS_TLS_GetValue_def OS_TLS_SetValue_def)

text \<open>Slot 3 of the running task 7, with only slot 0 issued.\<close>

theorem OS_TLS_GetValue_SetValue_invalid_id_witness:
  "OS_CFG_ARG_CHK_EN ex_cfg \<and> OS_TLS_NextAvailID ex_running \<le> 3 \<and>
   OS_TLS_GetValue ex_cfg (Some 7) 3 ex_running = Some (0, OS_ERR_TLS_ID_INVALID) \<and>
   OS_TLS_SetValue ex_cfg (Some 7) 3 5 ex_running = Some (OS_ERR_TLS_ID_INVALID, ex_running)"
proof -
  have a: "OS_CFG_ARG_CHK_EN ex_cfg" by (rule ex_cfg_fields)
  have b: "OS_TLS_NextAvailID ex_running \<le> 3"
    by (simp add: ex_running_def ex_task_created_eq ex_ready_fields)
  from OS_TLS_GetValue_SetValue_invalid_id [OF a b] a b show ?thesis by simp
qed

subsection \<open>C5: the current task before the kernel runs\<close>

text \<open>
  Claim C5, as amended. With a null \<^verbatim>\<open>p_tcb\<close> and a null \<^verbatim>\<open>OSTCBCurPtr\<close>, and an
  \<open>id'\<close> that passes the argument check (any \<open>id'\<close> when \<^verbatim>\<open>OS_CFG_ARG_CHK_EN\<close> is off,
  an issued one when it is on), \<^verbatim>\<open>OS_TLS_GetValue\<close> and \<^verbatim>\<open>OS_TLS_SetValue\<close> report
  \<^verbatim>\<open>OS_ERR_OS_NOT_RUNNING\<close>: the read returns 0 and the write leaves the state as it
  was.
\<close>

theorem OS_TLS_GetValue_SetValue_not_running:
  assumes "OSTCBCurPtr s = None" and "OS_CFG_ARG_CHK_EN cfg \<longrightarrow> id' < OS_TLS_NextAvailID s"
  shows "OS_TLS_GetValue cfg None id' s = Some (0, OS_ERR_OS_NOT_RUNNING) \<and>
         OS_TLS_SetValue cfg None id' val s = Some (OS_ERR_OS_NOT_RUNNING, s)"
  using assms by (auto simp: OS_TLS_GetValue_def OS_TLS_SetValue_def not_le [symmetric])

text \<open>Slot 0 after initialisation, before any task runs.\<close>

theorem OS_TLS_GetValue_SetValue_not_running_witness:
  "OSTCBCurPtr ex_ready = None \<and> OS_CFG_ARG_CHK_EN ex_cfg \<and> 0 < OS_TLS_NextAvailID ex_ready \<and>
   OS_TLS_GetValue ex_cfg None 0 ex_ready = Some (0, OS_ERR_OS_NOT_RUNNING) \<and>
   OS_TLS_SetValue ex_cfg None 0 5 ex_ready = Some (OS_ERR_OS_NOT_RUNNING, ex_ready)"
proof -
  have a: "OSTCBCurPtr ex_ready = None" by (rule ex_ready_fields)
  have b: "OS_CFG_ARG_CHK_EN ex_cfg \<longrightarrow> 0 < OS_TLS_NextAvailID ex_ready"
    by (simp add: ex_ready_fields)
  have c: "OS_CFG_ARG_CHK_EN ex_cfg" "0 < OS_TLS_NextAvailID ex_ready"
    by (simp_all add: ex_cfg_fields ex_ready_fields)
  from OS_TLS_GetValue_SetValue_not_running [OF a b] a c show ?thesis by simp
qed

text \<open>
  Claim C5 as stated, for every id, fails: the argument check comes first in both
  functions. For the id 1, not issued yet, a null \<^verbatim>\<open>p_tcb\<close> before the kernel runs
  gets \<^verbatim>\<open>OS_ERR_TLS_ID_INVALID\<close>.
\<close>

theorem OS_TLS_GetValue_SetValue_not_running_counterexample:
  "OSTCBCurPtr ex_ready = None \<and> OSRunning ex_ready = OS_STATE_OS_STOPPED \<and>
   OS_TLS_GetValue ex_cfg None 1 ex_ready = Some (0, OS_ERR_TLS_ID_INVALID) \<and>
   OS_TLS_SetValue ex_cfg None 1 5 ex_ready = Some (OS_ERR_TLS_ID_INVALID, ex_ready)"
  by (simp add: OS_TLS_GetValue_def OS_TLS_SetValue_def ex_ready_fields ex_cfg_fields)

subsection \<open>C6: a value written is the value read; a new task reads zero\<close>

text \<open>
  Claim C6, as amended. Let task \<open>t\<close> have TLS enabled and a table of
  \<^verbatim>\<open>OS_CFG_TLS_TBL_SIZE\<close> entries, and let \<open>id'\<close> be an issued id. Writing \<open>val\<close> to slot
  \<open>id'\<close> of \<open>t\<close>, addressed directly or as the current task, succeeds, and reading the
  slot back the same way returns \<open>val\<close> with \<^verbatim>\<open>OS_ERR_NONE\<close>. If the table of \<open>t\<close> is
  all zero when the create hook \<^verbatim>\<open>OS_TLS_TaskCreate\<close> runs, as \<^verbatim>\<open>OSTaskCreate()\<close> leaves
  it, then after the hook a read of slot \<open>id'\<close> returns 0 with \<^verbatim>\<open>OS_ERR_NONE\<close> for every
  issued id other than the reserved \<^verbatim>\<open>OS_TLS_LibID\<close>; at \<^verbatim>\<open>OS_TLS_LibID\<close> it returns the
  segment pointer that the hook has stored.
\<close>

theorem OS_TLS_set_get_roundtrip:
  assumes "Opt (TCBs s t) AND OS_OPT_TASK_NO_TLS cfg = OS_OPT_NONE"
    and "id' < OS_TLS_NextAvailID s"
    and "OS_TLS_NextAvailID s \<le> OS_CFG_TLS_TBL_SIZE cfg"
    and "length (TLS_Tbl (TCBs s t)) = unat (OS_CFG_TLS_TBL_SIZE cfg)"
  shows
   "(p_tcb = Some t \<or> p_tcb = None \<and> OSTCBCurPtr s = Some t \<longrightarrow>
      (\<exists>s'. OS_TLS_SetValue cfg p_tcb id' val s = Some (OS_ERR_NONE, s') \<and>
            OS_TLS_GetValue cfg p_tcb id' s' = Some (val, OS_ERR_NONE))) \<and>
    (TLS_Tbl (TCBs s t) = replicate (unat (OS_CFG_TLS_TBL_SIZE cfg)) 0 \<and>
     OS_TLS_LibID s < OS_TLS_NextAvailID s \<longrightarrow>
      (\<exists>s'. OS_TLS_TaskCreate cfg t p_tls s = Some s' \<and>
            OS_TLS_GetValue cfg (Some t) id' s' =
              Some (if id' = OS_TLS_LibID s then p_tls else 0, OS_ERR_NONE)))"
proof (intro conjI impI)
  have "id' < OS_CFG_TLS_TBL_SIZE cfg" using assms(2,3) by simp
  then have b: "unat id' < length (TLS_Tbl (TCBs s t))"
    using assms(4) by (simp add: word_less_nat_alt)
  have nle: "\<not> OS_TLS_NextAvailID s \<le> id'" using assms(2) by (simp add: not_le)
  {
    assume p: "p_tcb = Some t \<or> p_tcb = None \<and> OSTCBCurPtr s = Some t"
    let ?s' = "s\<lparr>TCBs := (TCBs s)
                  (t := (TCBs s t)\<lparr>TLS_Tbl := (TLS_Tbl (TCBs s t))[unat id' := val]\<rparr>)\<rparr>"
    have "OS_TLS_SetValue cfg p_tcb id' val s = Some (OS_ERR_NONE, ?s')"
      using assms(1) b nle p by (auto simp: OS_TLS_SetValue_def)
    moreover have "OS_TLS_GetValue cfg p_tcb id' ?s' = Some (val, OS_ERR_NONE)"
      using assms(1) b nle p by (auto simp: OS_TLS_GetValue_def)
    ultimately show "\<exists>s'. OS_TLS_SetValue cfg p_tcb id' val s = Some (OS_ERR_NONE, s') \<and>
            OS_TLS_GetValue cfg p_tcb id' s' = Some (val, OS_ERR_NONE)"
      by blast
  next
    assume f: "TLS_Tbl (TCBs s t) = replicate (unat (OS_CFG_TLS_TBL_SIZE cfg)) 0 \<and>
      OS_TLS_LibID s < OS_TLS_NextAvailID s"
    then have "OS_TLS_LibID s < OS_TLS_NextAvailID s" by simp
    with assms(3) have "OS_TLS_LibID s < OS_CFG_TLS_TBL_SIZE cfg" by simp
    then have l: "unat (OS_TLS_LibID s) < length (TLS_Tbl (TCBs s t))"
      using assms(4) by (simp add: word_less_nat_alt)
    let ?s' = "s\<lparr>TCBs := (TCBs s)
                  (t := (TCBs s t)
                     \<lparr>TLS_Tbl := (TLS_Tbl (TCBs s t))[unat (OS_TLS_LibID s) := p_tls]\<rparr>),
                Calls := Calls s @
                  [iar_dlib_perthread_allocate, iar_dlib_perthread_initialize p_tls]\<rparr>"
    have "OS_TLS_TaskCreate cfg t p_tls s = Some ?s'"
      using assms(1) l by (simp add: OS_TLS_TaskCreate_def)
    moreover have "OS_TLS_GetValue cfg (Some t) id' ?s' =
              Some (if id' = OS_TLS_LibID s then p_tls else 0, OS_ERR_NONE)"
      using assms(1) b l nle f
      by (auto simp: OS_TLS_GetValue_def nth_list_update word_unat_eq_iff)
    ultimately show "\<exists>s'. OS_TLS_TaskCreate cfg t p_tls s = Some s' \<and>
            OS_TLS_GetValue cfg (Some t) id' s' =
              Some (if id' = OS_TLS_LibID s then p_tls else 0, OS_ERR_NONE)"
      by blast
  }
qed

text \<open>Task 7 and the client slot 1: the value \<open>0xABCD\<close> is read back, and the slot of
  the newly created task reads 0.\<close>

theorem OS_TLS_set_get_roundtrip_witness:
  "Opt (TCBs ex_slot_issued 7) AND OS_OPT_TASK_NO_TLS ex_cfg = OS_OPT_NONE \<and>
   1 < OS_TLS_NextAvailID ex_slot_issued \<and>
   OS_TLS_NextAvailID ex_slot_issued \<le> OS_CFG_TLS_TBL_SIZE ex_cfg \<and>
   length (TLS_Tbl (TCBs ex_slot_issued 7)) = unat (OS_CFG_TLS_TBL_SIZE ex_cfg) \<and>
   TLS_Tbl (TCBs ex_slot_issued 7) = replicate (unat (OS_CFG_TLS_TBL_SIZE ex_cfg)) 0 \<and>
   OS_TLS_LibID ex_slot_issued < OS_TLS_NextAvailID ex_slot_issued \<and>
   (\<exists>s'. OS_TLS_SetValue ex_cfg (Some 7) 1 0xABCD ex_slot_issued = Some (OS_ERR_NONE, s') \<and>
         OS_TLS_GetValue ex_cfg (Some 7) 1 s' = Some (0xABCD, OS_ERR_NONE)) \<and>
   (\<exists>s'. OS_TLS_TaskCreate ex_cfg 7 0x20001000 ex_slot_issued = Some s' \<and>
         OS_TLS_GetValue ex_cfg (Some 7) 1 s' = Some (0, OS_ERR_NONE))"
proof -
  have a: "Opt (TCBs ex_slot_issued 7) AND OS_OPT_TASK_NO_TLS ex_cfg = OS_OPT_NONE"
    by (simp add: ex_slot_issued_eq ex_ready_fields ex_cfg_fields OS_OPT_NONE_def)
  have b: "1 < OS_TLS_NextAvailID ex_slot_issued"
    by (simp add: ex_slot_issued_eq)
  have c: "OS_TLS_NextAvailID ex_slot_issued \<le> OS_CFG_TLS_TBL_SIZE ex_cfg"
    by (simp add: ex_slot_issued_eq ex_cfg_fields)
  have d: "length (TLS_Tbl (TCBs ex_slot_issued 7)) = unat (OS_CFG_TLS_TBL_SIZE ex_cfg)"
    by (simp add: ex_slot_issued_eq ex_ready_fields ex_cfg_fields)
  have e: "TLS_Tbl (TCBs ex_slot_issued 7) = replicate (unat (OS_CFG_TLS_TBL_SIZE ex_cfg)) 0"
    by (simp add: ex_slot_issued_eq ex_ready_fields ex_cfg_fields)
  have f: "OS_TLS_LibID ex_slot_issued < OS_TLS_NextAvailID ex_slot_issued"
    by (simp add: ex_slot_issued_eq ex_ready_fields)
  have g: "(1::32 word) \<noteq> OS_TLS_LibID ex_slot_issued"
    by (simp add: ex_slot_issued_eq ex_ready_fields)
  from OS_TLS_set_get_roundtrip [OF a b c d, of "Some 7" "0xABCD" "0x20001000"] a b c d e f g
  show ?thesis by simp
qed

text \<open>
  Claim C6 as stated, for any valid id, fails at the reserved slot: task 7 is created
  with TLS enabled and a zeroed table, and the first read of slot 0, before any write
  by \<^verbatim>\<open>OS_TLS_SetValue\<close>, returns the segment address \<open>0x20001000\<close>.
\<close>

theorem OS_TLS_fresh_task_counterexample:
  "OS_TLS_TaskCreate ex_cfg 7 0x20001000 ex_ready = Some ex_task_created \<and>
   Opt (TCBs ex_task_created 7) AND OS_OPT_TASK_NO_TLS ex_cfg = OS_OPT_NONE \<and>
   0 < OS_TLS_NextAvailID ex_task_created \<and>
   OS_TLS_GetValue ex_cfg (Some 7) 0 ex_task_created = Some (0x20001000, OS_ERR_NONE)"
  by (simp add: ex_task_created_eq OS_TLS_TaskCreate_def OS_TLS_GetValue_def ex_ready_fields
      ex_cfg_fields OS_OPT_NONE_def)

subsection \<open>C7: acquire and release do nothing without a handle or a running kernel\<close>

text \<open>
  Claim C7. With a null handle, or with \<^verbatim>\<open>OSRunning\<close> other than
  \<^verbatim>\<open>OS_STATE_OS_RUNNING\<close>, \<^verbatim>\<open>OS_TLS_LockAcquire\<close> and \<^verbatim>\<open>OS_TLS_LockRelease\<close> return the
  state untouched: no kernel call, no change to the pool. With the handle of entry
  \<open>i\<close> and the kernel running, the only effect is the one call \<^verbatim>\<open>OSMutexPend\<close>,
  respectively \<^verbatim>\<open>OSMutexPost\<close>, on the mutex of entry \<open>i\<close>.
\<close>

theorem OS_TLS_LockAcquire_LockRelease_guard:
  "(p_lock = None \<or> OSRunning s \<noteq> OS_STATE_OS_RUNNING \<longrightarrow>
      OS_TLS_LockAcquire p_lock s = s \<and> OS_TLS_LockRelease p_lock s = s) \<and>
   (p_lock = Some i \<and> OSRunning s = OS_STATE_OS_RUNNING \<longrightarrow>
      OS_TLS_LockAcquire p_lock s = s\<lparr>Calls := Calls s @ [OSMutexPend i]\<rparr> \<and>
      OS_TLS_LockRelease p_lock s = s\<lparr>Calls := Calls s @ [OSMutexPost i]\<rparr>)"
  by (auto simp: OS_TLS_LockAcquire_def OS_TLS_LockRelease_def split: option.splits)

text \<open>A real handle before the kernel runs, the null handle while it runs, and a real
  handle while it runs.\<close>

theorem OS_TLS_LockAcquire_LockRelease_guard_witness:
  "OSRunning ex_one_out \<noteq> OS_STATE_OS_RUNNING \<and>
   OS_TLS_LockAcquire (Some 0) ex_one_out = ex_one_out \<and>
   OS_TLS_LockRelease (Some 0) ex_one_out = ex_one_out \<and>
   OS_TLS_LockAcquire None ex_running = ex_running \<and>
   OS_TLS_LockRelease None ex_running = ex_running \<and>
   OSRunning ex_running = OS_STATE_OS_RUNNING \<and>
   OS_TLS_LockAcquire (Some 0) ex_running = ex_running\<lparr>Calls := Calls ex_running @ [OSMutexPend 0]\<rparr> \<and>
   OS_TLS_LockRelease (Some 0) ex_running = ex_running\<lparr>Calls := Calls ex_running @ [OSMutexPost 0]\<rparr>"
proof -
  have a: "OSRunning ex_one_out \<noteq> OS_STATE_OS_RUNNING"
    by (simp add: ex_one_out_def OS_TLS_LockCreate_def Let_def ex_ready_fields)
  have b: "OSRunning ex_running = OS_STATE_OS_RUNNING"
    by (simp add: ex_running_def)
  from OS_TLS_LockAcquire_LockRelease_guard [of "Some 0" ex_one_out 0]
    OS_TLS_LockAcquire_LockRelease_guard [of None ex_running 0]
    OS_TLS_LockAcquire_LockRelease_guard [of "Some 0" ex_running 0] a b
  show ?thesis by simp
qed

subsection \<open>C8: the base of the address resolver\<close>

text \<open>
  Claim C8. \<^verbatim>\<open>__iar_dlib_perthread_access\<close> returns base plus the symbol's offset. While
  \<^verbatim>\<open>OSRunning\<close> is not \<^verbatim>\<open>OS_STATE_OS_RUNNING\<close> the base is the start of the static
  segment. While the kernel runs, with a current task whose table holds the reserved
  slot, the base is the entry of that table at \<^verbatim>\<open>OS_TLS_LibID\<close>.
\<close>

theorem iar_dlib_perthread_access_base:
  "(OSRunning s \<noteq> OS_STATE_OS_RUNNING \<longrightarrow>
      iar_dlib_perthread_access seg_begin symbol_offset symbp s =
        Some (seg_begin + symbol_offset symbp)) \<and>
   (OSRunning s = OS_STATE_OS_RUNNING \<and> OSTCBCurPtr s = Some t \<and>
    unat (OS_TLS_LibID s) < length (TLS_Tbl (TCBs s t)) \<longrightarrow>
      iar_dlib_perthread_access seg_begin symbol_offset symbp s =
        Some (TLS_Tbl (TCBs s t) ! unat (OS_TLS_LibID s) + symbol_offset symbp))"
  by (simp add: iar_dlib_perthread_access_def)

text \<open>The symbol at offset \<open>0x10\<close>: in the static segment before the kernel runs, in the
  segment of task 7 once it runs.\<close>

theorem iar_dlib_perthread_access_base_witness:
  "OSRunning ex_ready \<noteq> OS_STATE_OS_RUNNING \<and>
   iar_dlib_perthread_access ex_seg_begin ex_symbol_offset 0x20000010 ex_ready = Some 0x20000010 \<and>
   OSRunning ex_running = OS_STATE_OS_RUNNING \<and> OSTCBCurPtr ex_running = Some 7 \<and>
   unat (OS_TLS_LibID ex_running) < length (TLS_Tbl (TCBs ex_running 7)) \<and>
   iar_dlib_perthread_access ex_seg_begin ex_symbol_offset 0x20000010 ex_running = Some 0x20001010"
proof -
  have a: "OSRunning ex_ready \<noteq> OS_STATE_OS_RUNNING" by (simp add: ex_ready_fields)
  have b: "OSRunning ex_running = OS_STATE_OS_RUNNING \<and> OSTCBCurPtr ex_running = Some 7 \<and>
    unat (OS_TLS_LibID ex_running) < length (TLS_Tbl (TCBs ex_running 7))"
    by (simp add: ex_running_def ex_task_created_eq ex_ready_fields)
  have c: "TLS_Tbl (TCBs ex_running 7) ! unat (OS_TLS_LibID ex_running) = 0x20001000"
    by (simp add: ex_running_def ex_task_created_eq ex_ready_fields)
  have d: "ex_symbol_offset 0x20000010 = 0x10" "ex_seg_begin = 0x20000000"
    by (simp_all add: ex_symbol_offset_def ex_seg_begin_def)
  from iar_dlib_perthread_access_base [of ex_ready ex_seg_begin ex_symbol_offset "0x20000010" 7]
    iar_dlib_perthread_access_base [of ex_running ex_seg_begin ex_symbol_offset "0x20000010" 7]
    a b c d
  show ?thesis by simp
qed

subsection \<open>C9: destructor registration never reports an invalid id\<close>

text \<open>
  Claim C9 says that \<^verbatim>\<open>OS_TLS_SetDestruct\<close> reports \<^verbatim>\<open>OS_ERR_TLS_ID_INVALID\<close> for an id
  that was not issued, as the function's header comment does. The code does not: with
  one slot issued out of four, the id 9 is accepted with \<^verbatim>\<open>OS_ERR_NONE\<close>.
\<close>

theorem OS_TLS_SetDestruct_invalid_id_accepted:
  "OS_TLS_NextAvailID ex_ready = 1 \<and> OS_CFG_TLS_TBL_SIZE ex_cfg = 4 \<and>
   OS_TLS_SetDestruct 9 (Some 1) ex_ready = (OS_ERR_NONE, ex_ready)"
  by (simp add: OS_TLS_SetDestruct_def ex_ready_fields ex_cfg_fields)

subsection \<open>C10: initialisation takes slot 0 for the runtime\<close>

text \<open>
  Claim C10. With a table of at least one slot (and a lock pool small enough for the
  loop of \<^verbatim>\<open>OS_TLS_Init\<close> to end), \<^verbatim>\<open>OS_TLS_Init\<close> returns with \<^verbatim>\<open>OS_ERR_NONE\<close>,
  \<^verbatim>\<open>OS_TLS_LibID = 0\<close> and \<^verbatim>\<open>OS_TLS_NextAvailID = 1\<close>. The next call of \<^verbatim>\<open>OS_TLS_GetID\<close>
  returns 1, which is an issued id when the table has more than one slot and the
  exhaustion value otherwise. The next \<^verbatim>\<open>OS_CFG_TLS_TBL_SIZE - 1\<close> calls all succeed,
  with the ids \<open>1, 2, ...\<close>, and among any number of calls after initialisation at
  most \<^verbatim>\<open>OS_CFG_TLS_TBL_SIZE - 1\<close> succeed.
\<close>

theorem OS_TLS_Init_reserves_slot_zero:
  assumes "0 < OS_CFG_TLS_TBL_SIZE cfg" and "OS_TLS_LOCK_MAX cfg \<le> 65536"
  shows "\<exists>s'. OS_TLS_Init cfg s = Some (OS_ERR_NONE, s') \<and>
      OS_TLS_LibID s' = 0 \<and> OS_TLS_NextAvailID s' = 1 \<and>
      fst (fst (OS_TLS_GetID cfg s')) = 1 \<and>
      (snd (fst (OS_TLS_GetID cfg s')) = OS_ERR_NONE \<longleftrightarrow> 1 < OS_CFG_TLS_TBL_SIZE cfg) \<and>
      fst (get_ids cfg (unat (OS_CFG_TLS_TBL_SIZE cfg) - 1) s') =
        map (\<lambda>k. (1 + of_nat k, OS_ERR_NONE)) [0..<unat (OS_CFG_TLS_TBL_SIZE cfg) - 1] \<and>
      (\<forall>n. length (filter (\<lambda>r. snd r = OS_ERR_NONE) (fst (get_ids cfg n s')))
            \<le> unat (OS_CFG_TLS_TBL_SIZE cfg) - 1)"
proof -
  let ?s' = "s\<lparr>OS_TLS_NextAvailID := 1, OS_TLS_LibID := 0,
         OS_TLS_LockPoolTbl := initial_pool (OS_TLS_LOCK_MAX cfg) (OS_TLS_LockPoolTbl s),
         OS_TLS_LockPoolListPtr := Some 0\<rparr>"
  have i: "OS_TLS_Init cfg s = Some (OS_ERR_NONE, ?s')"
    using assms by (rule OS_TLS_Init_returns)
  have one: "\<not> 1 < OS_CFG_TLS_TBL_SIZE cfg \<Longrightarrow> OS_CFG_TLS_TBL_SIZE cfg = 1"
    using assms(1) by (simp add: word_less_nat_alt word_unat_eq_iff) 
  have g: "fst (fst (OS_TLS_GetID cfg ?s')) = 1"
    using one by (auto simp: OS_TLS_GetID_def not_le)
  have e: "snd (fst (OS_TLS_GetID cfg ?s')) = OS_ERR_NONE \<longleftrightarrow> 1 < OS_CFG_TLS_TBL_SIZE cfg"
    by (auto simp: OS_TLS_GetID_def not_le)
  have n: "length (filter (\<lambda>r. snd r = OS_ERR_NONE) (fst (get_ids cfg n ?s')))
            \<le> unat (OS_CFG_TLS_TBL_SIZE cfg) - 1" for n
    using get_ids_successes [of cfg n ?s'] by simp
  have "0 < unat (OS_CFG_TLS_TBL_SIZE cfg)"
    using assms(1) by (simp add: word_less_nat_alt)
  then have "unat (OS_TLS_NextAvailID ?s') + (unat (OS_CFG_TLS_TBL_SIZE cfg) - 1)
      \<le> unat (OS_CFG_TLS_TBL_SIZE cfg)"
    by simp
  then have m: "fst (get_ids cfg (unat (OS_CFG_TLS_TBL_SIZE cfg) - 1) ?s') =
        map (\<lambda>k. (1 + of_nat k, OS_ERR_NONE)) [0..<unat (OS_CFG_TLS_TBL_SIZE cfg) - 1]"
    by (simp add: get_ids_below)
  show ?thesis
  proof (rule exI [of _ ?s'], intro conjI allI)
    show "fst (get_ids cfg (unat (OS_CFG_TLS_TBL_SIZE cfg) - 1) ?s') =
        map (\<lambda>k. (1 + of_nat k, OS_ERR_NONE)) [0..<unat (OS_CFG_TLS_TBL_SIZE cfg) - 1]"
      by (rule m)
    show "OS_TLS_Init cfg s = Some (OS_ERR_NONE, ?s')" by (rule i)
    show "OS_TLS_LibID ?s' = 0" by simp
    show "OS_TLS_NextAvailID ?s' = 1" by simp
    show "fst (fst (OS_TLS_GetID cfg ?s')) = 1" by (rule g)
    show "snd (fst (OS_TLS_GetID cfg ?s')) = OS_ERR_NONE \<longleftrightarrow> 1 < OS_CFG_TLS_TBL_SIZE cfg"
      by (rule e)
    show "length (filter (\<lambda>r. snd r = OS_ERR_NONE) (fst (get_ids cfg n ?s')))
            \<le> unat (OS_CFG_TLS_TBL_SIZE cfg) - 1" for n
      by (rule n)
  qed
qed

text \<open>Four slots: slot 0 goes to the runtime, and the first client gets slot 1.\<close>

theorem OS_TLS_Init_reserves_slot_zero_witness:
  "0 < OS_CFG_TLS_TBL_SIZE ex_cfg \<and> OS_TLS_LOCK_MAX ex_cfg \<le> 65536 \<and>
   OS_TLS_Init ex_cfg ex_boot = Some (OS_ERR_NONE, ex_ready) \<and>
   OS_TLS_LibID ex_ready = 0 \<and> OS_TLS_NextAvailID ex_ready = 1 \<and>
   fst (OS_TLS_GetID ex_cfg ex_ready) = (1, OS_ERR_NONE)"
proof -
  have a: "0 < OS_CFG_TLS_TBL_SIZE ex_cfg" by (simp add: ex_cfg_fields)
  have b: "OS_TLS_LOCK_MAX ex_cfg \<le> 65536" by (simp add: ex_cfg_fields)
  have c: "1 < OS_CFG_TLS_TBL_SIZE ex_cfg" by (simp add: ex_cfg_fields)
  from OS_TLS_Init_reserves_slot_zero [OF a b, of ex_boot] obtain s' where
    i: "OS_TLS_Init ex_cfg ex_boot = Some (OS_ERR_NONE, s')"
    and r: "OS_TLS_LibID s' = 0" "OS_TLS_NextAvailID s' = 1"
      "fst (fst (OS_TLS_GetID ex_cfg s')) = 1"
      "snd (fst (OS_TLS_GetID ex_cfg s')) = OS_ERR_NONE \<longleftrightarrow> 1 < OS_CFG_TLS_TBL_SIZE ex_cfg"
    by blast
  from i have "ex_ready = s'" by (simp add: ex_ready_def)
  with i r a b c show ?thesis by (simp add: prod_eq_iff)
qed

end
